theory Spec2Isabelle
  imports Complex_Main "HOL-Library.Sublist"
begin

section \<open>Common Python notions\<close>

text \<open>
  Exceptions are values. \<open>SystemExit\<close> is what \<^verbatim>\<open>sys.exit()\<close> raises: the fatal
  process exit of the specification. \<open>OSError\<close> stands for the operating system's
  refusals of \<^verbatim>\<open>mkdir\<close> (\<^verbatim>\<open>FileExistsError\<close>, \<^verbatim>\<open>NotADirectoryError\<close>).
\<close>

datatype py_error =
    ValueError | KeyError | TypeError | IndexError | RuntimeError | AssertionError
  | AttributeError | OSError | SystemExit

text \<open>
  \<^verbatim>\<open>range(start, stop, step)\<close> as a list, with CPython's length computation; a zero
  step raises \<^verbatim>\<open>ValueError\<close>.
\<close>

definition range_len :: "int \<Rightarrow> int \<Rightarrow> int \<Rightarrow> nat" where
  "range_len start stop step =
     (if 0 < step then (if start < stop then nat ((stop - start - 1) div step + 1) else 0)
      else (if stop < start then nat ((start - stop - 1) div (- step) + 1) else 0))"

definition py_range :: "int \<Rightarrow> int \<Rightarrow> int \<Rightarrow> py_error + int list" where
  "py_range start stop step =
     (if step = 0 then Inl ValueError
      else Inr (map (\<lambda>i. start + int i * step) [0..<range_len start stop step]))"

section \<open>The writer callback (lighter/callbacks/writer/base.py)\<close>

subsection \<open>Storage as one process sees it\<close>

text \<open>
  A path is its list of components; a file system maps the paths that exist to what they
  are. \<^verbatim>\<open>Path.exists()\<close> is true of files and directories alike.
\<close>

type_synonym path = "string list"

datatype node = Dir | File

type_synonym filesystem = "path \<Rightarrow> node option"

definition path_exists :: "filesystem \<Rightarrow> path \<Rightarrow> bool" where
  "path_exists fs p = (fs p \<noteq> None)"

text \<open>
  \<^verbatim>\<open>Path.mkdir(parents=True, exist_ok=True)\<close>: an existing directory is accepted, an
  existing file is refused, a missing parent is created first (with the same call).
\<close>

function mkdir_parents :: "filesystem \<Rightarrow> path \<Rightarrow> py_error + filesystem" where
  "mkdir_parents fs p =
     (case fs p of
        Some Dir \<Rightarrow> Inr fs
      | Some File \<Rightarrow> Inl OSError
      | None \<Rightarrow>
          (if p = [] then Inl OSError
           else (case mkdir_parents fs (butlast p) of
                   Inl e \<Rightarrow> Inl e
                 | Inr fs' \<Rightarrow> Inr (fs'(p \<mapsto> Dir)))))"
  by pat_completeness auto
termination
  by (relation "measure (\<lambda>(fs, p). length p)") auto

declare mkdir_parents.simps [simp del]

subsection \<open>The writer object and the trainer around it\<close>

text \<open>
  The fields of \<^verbatim>\<open>LighterBaseWriter\<close>: \<^verbatim>\<open>self.directory\<close>, \<^verbatim>\<open>self.writer\<close> and
  \<^verbatim>\<open>self._pred_counter\<close> (\<open>None\<close> until \<^verbatim>\<open>setup\<close> seeds it).
\<close>

record 'f base_writer =
  directory :: path
  writer :: 'f
  pred_counter :: "int option"

text \<open>The \<^verbatim>\<open>writer\<close> argument of the constructor: a format name or any other object.\<close>

datatype 'f writer_arg = WriterName string | WriterObject 'f

text \<open>
  \<^verbatim>\<open>__init__(directory, writer)\<close>; \<open>writers\<close> is the subclass's \<^verbatim>\<open>self.writers\<close>
  dictionary.
\<close>

definition LighterBaseWriter_init ::
  "(string \<Rightarrow> 'f option) \<Rightarrow> path \<Rightarrow> 'f writer_arg \<Rightarrow> py_error + 'f base_writer" where
  "LighterBaseWriter_init writers dir w =
     (case w of
        WriterName s \<Rightarrow>
          (case writers s of
             None \<Rightarrow> Inl ValueError
           | Some f \<Rightarrow> Inr \<lparr>directory = dir, writer = f, pred_counter = None\<rparr>)
      | WriterObject f \<Rightarrow> Inr \<lparr>directory = dir, writer = f, pred_counter = None\<rparr>)"

text \<open>
  What one process reads from the trainer and the distributed runtime:
  \<^verbatim>\<open>trainer.world_size\<close>, \<^verbatim>\<open>trainer.global_rank\<close>, \<^verbatim>\<open>trainer.is_global_zero\<close>,
  \<^verbatim>\<open>torch.distributed.get_rank()\<close>, \<^verbatim>\<open>trainer.predict_loop.num_dataloaders\<close>, and the
  two collectives. \<open>broadcast\<close> is what \<^verbatim>\<open>trainer.strategy.broadcast(obj, src=0)\<close>
  returns here for the object this process passes in. \<open>barrier\<close> is the storage this
  process sees when \<^verbatim>\<open>trainer.strategy.barrier()\<close> returns, given the storage it saw
  when it entered: the other processes may have written to shared storage meanwhile.
\<close>

record trainer =
  world_size :: int
  global_rank :: int
  is_global_zero :: bool
  dist_rank :: int
  num_dataloaders :: nat
  broadcast :: "path \<Rightarrow> path"
  barrier :: "filesystem \<Rightarrow> filesystem"

text \<open>
  The state one process's callback works on: the writer object, the storage it sees, the
  warnings it logged, the calls \<^verbatim>\<open>self.write(tensor=pred, id=id)\<close> it made (in order)
  and the trainer's buffer \<^verbatim>\<open>trainer.predict_loop._predictions\<close>.
\<close>

record ('f, 't) proc =
  wr :: "'f base_writer"
  storage :: filesystem
  warnings :: "path list"
  written :: "(int \<times> 't) list"
  predictions :: "'t list list"

text \<open>
  \<^verbatim>\<open>setup(trainer, pl_module, stage)\<close>. The result pairs the exception raised, if any,
  with the state left behind.
\<close>

definition LighterBaseWriter_setup ::
  "trainer \<Rightarrow> string \<Rightarrow> ('f, 't) proc \<Rightarrow> py_error option \<times> ('f, 't) proc" where
  "LighterBaseWriter_setup tr stage s =
     (if stage \<noteq> ''predict'' then (None, s)
      else
        let s1 = s\<lparr>wr := (wr s)\<lparr>pred_counter :=
                     Some (if world_size tr > 1 then dist_rank tr else 0)\<rparr>\<rparr>;
            d = broadcast tr (directory (wr s1));
            s2 = s1\<lparr>wr := (wr s1)\<lparr>directory := d\<rparr>\<rparr>;
            s3 = (if path_exists (storage s2) d then s2\<lparr>warnings := warnings s2 @ [d]\<rparr> else s2)
        in (case (if is_global_zero tr then mkdir_parents (storage s3) d else Inr (storage s3)) of
              Inl e \<Rightarrow> (Some e, s3)
            | Inr fs' \<Rightarrow>
                let s4 = s3\<lparr>storage := barrier tr fs'\<rparr>
                in if \<not> path_exists (storage s4) d then (Some RuntimeError, s4) else (None, s4)))"

text \<open>The \<^verbatim>\<open>outputs\<close> dictionary of a prediction batch: keys \<^verbatim>\<open>id\<close> and \<^verbatim>\<open>pred\<close>.\<close>

record 't outputs =
  out_id :: "int list option"
  out_pred :: "'t list"

text \<open>
  \<^verbatim>\<open>on_predict_batch_end(trainer, pl_module, outputs, batch, batch_idx)\<close>. The
  dictionary is mutated in place, so it is returned with the state. An unset counter
  makes \<^verbatim>\<open>self._pred_counter + batch_size * world_size\<close> a \<^verbatim>\<open>TypeError\<close>.
\<close>

definition assign_ids ::
  "trainer \<Rightarrow> 't outputs \<Rightarrow> ('f, 't) proc \<Rightarrow> py_error + (('f, 't) proc \<times> 't outputs)" where
  "assign_ids tr outs s =
     (case out_id outs of
        Some ids \<Rightarrow> Inr (s, outs)
      | None \<Rightarrow>
          (let batch_size = int (length (out_pred outs));
               ws = world_size tr
           in case pred_counter (wr s) of
                None \<Rightarrow> Inl TypeError
              | Some c \<Rightarrow>
                  (case py_range c (c + batch_size * ws) ws of
                     Inl e \<Rightarrow> Inl e
                   | Inr ids \<Rightarrow>
                       Inr (s\<lparr>wr := (wr s)\<lparr>pred_counter := Some (c + batch_size * ws)\<rparr>\<rparr>,
                            outs\<lparr>out_id := Some ids\<rparr>))))"

definition on_predict_batch_end ::
  "trainer \<Rightarrow> 't outputs \<Rightarrow> ('f, 't) proc \<Rightarrow> py_error option \<times> ('f, 't) proc \<times> 't outputs" where
  "on_predict_batch_end tr outs s =
     (case assign_ids tr outs s of
        Inl e \<Rightarrow> (Some e, s, outs)
      | Inr (s1, outs1) \<Rightarrow>
          (let ids = (case out_id outs1 of Some ids \<Rightarrow> ids | None \<Rightarrow> []);
               s2 = s1\<lparr>written := written s1 @ zip ids (out_pred outs1)\<rparr>;
               s3 = s2\<lparr>predictions := replicate (num_dataloaders tr) []\<rparr>
           in (None, s3, outs1)))"

text \<open>
  The trainer's prediction loop as far as this callback sees it: one call per batch, in
  order, stopping at the first exception. The dictionaries are returned as the callback
  left them.
\<close>

fun predict_batches ::
  "trainer \<Rightarrow> 't outputs list \<Rightarrow> ('f, 't) proc \<Rightarrow>
     py_error option \<times> ('f, 't) proc \<times> 't outputs list" where
  "predict_batches tr [] s = (None, s, [])"
| "predict_batches tr (outs # rest) s =
     (case on_predict_batch_end tr outs s of
        (Some e, s1, outs1) \<Rightarrow> (Some e, s1, outs1 # rest)
      | (None, s1, outs1) \<Rightarrow>
          (case predict_batches tr rest s1 of
             (r, s2, rest1) \<Rightarrow> (r, s2, outs1 # rest1)))"

text \<open>A process's prediction stage: \<^verbatim>\<open>setup(stage="predict")\<close>, then the batches.\<close>

definition predict_stage ::
  "trainer \<Rightarrow> ('f, 't) proc \<Rightarrow> 't outputs list \<Rightarrow>
     py_error option \<times> ('f, 't) proc \<times> 't outputs list" where
  "predict_stage tr s batches =
     (case LighterBaseWriter_setup tr ''predict'' s of
        (Some e, s1) \<Rightarrow> (Some e, s1, batches)
      | (None, s1) \<Rightarrow> predict_batches tr batches s1)"

text \<open>The IDs a process's batches carry when its prediction stage is over.\<close>

definition ids_of :: "'t outputs list \<Rightarrow> int list" where
  "ids_of batches = concat (map (\<lambda>b. case out_id b of Some ids \<Rightarrow> ids | None \<Rightarrow> []) batches)"

text \<open>
  One worker process of a distributed run: its trainer, the state its callback starts
  from and the batches its prediction loop hands to the callback.
\<close>

record ('f, 't) worker =
  w_trainer :: trainer
  w_state :: "('f, 't) proc"
  w_batches :: "'t outputs list"

definition stage_ids :: "('f, 't) worker \<Rightarrow> int list" where
  "stage_ids w = ids_of (snd (snd (predict_stage (w_trainer w) (w_state w) (w_batches w))))"

text \<open>The number of predictions in a list of batches.\<close>

definition total_preds :: "'t outputs list \<Rightarrow> nat" where
  "total_preds batches = sum_list (map (\<lambda>b. length (out_pred b)) batches)"

text \<open>The arithmetic progression of \<open>k\<close> terms from \<open>r\<close> with common difference \<open>n\<close>.\<close>

definition stride :: "int \<Rightarrow> int \<Rightarrow> nat \<Rightarrow> int list" where
  "stride n r k = map (\<lambda>i. r + int i * n) [0..<k]"

section \<open>The system adapter (lightningbringer/system.py)\<close>

subsection \<open>Tensors and the library functions the step calls\<close>

text \<open>
  A tensor is its shape and its elements in row-major order. Elements are real numbers:
  rounding, infinities and NaN are outside this model. \<^verbatim>\<open>flatten()\<close> keeps the
  elements and makes the shape one-dimensional; \<^verbatim>\<open>torch.sigmoid\<close> works elementwise.
\<close>

record tensor =
  shape :: "nat list"
  elems :: "real list"

definition flatten :: "tensor \<Rightarrow> tensor" where
  "flatten t = \<lparr>shape = [prod_list (shape t)], elems = elems t\<rparr>"

definition sigmoid :: "real \<Rightarrow> real" where
  "sigmoid x = 1 / (1 + exp (- x))"

definition torch_sigmoid :: "tensor \<Rightarrow> tensor" where
  "torch_sigmoid t = \<lparr>shape = shape t, elems = map sigmoid (elems t)\<rparr>"

text \<open>
  What \<^verbatim>\<open>_log_by_type\<close> can be handed as \<^verbatim>\<open>data\<close>: a metric object (named by
  \<^verbatim>\<open>get_name\<close>), the loss, or one of the tensors \<^verbatim>\<open>input\<close>, \<^verbatim>\<open>target\<close>,
  \<^verbatim>\<open>pred\<close>. And what it can be handed as \<^verbatim>\<open>data_type\<close>: a string or a boolean.
\<close>

datatype logdata = MetricObject string | LossValue real | TensorData tensor

datatype pyval = PyStr string | PyBool bool

definition py_str :: "pyval \<Rightarrow> string" where
  "py_str v = (case v of PyStr s \<Rightarrow> s | PyBool b \<Rightarrow> (if b then ''True'' else ''False''))"

text \<open>
  \<^verbatim>\<open>data[0:1]\<close>: the first entry along the first dimension. A metric object cannot be
  subscripted; a zero-dimensional tensor (the loss is one) cannot be sliced.
\<close>

definition getitem_0_1 :: "logdata \<Rightarrow> py_error + logdata" where
  "getitem_0_1 data =
     (case data of
        MetricObject m \<Rightarrow> Inl TypeError
      | LossValue l \<Rightarrow> Inl IndexError
      | TensorData t \<Rightarrow>
          (case shape t of
             [] \<Rightarrow> Inl IndexError
           | n # rest \<Rightarrow>
               Inr (TensorData \<lparr>shape = min 1 n # rest,
                                elems = take (min 1 n * prod_list rest) (elems t)\<rparr>)))"

text \<open>
  Functions of other modules that the step calls: \<open>to_dtype name t\<close> is
  \<^verbatim>\<open>t.to(import_attr(name))\<close> and \<open>preprocess_image\<close> is
  \<^verbatim>\<open>lightningbringer.utils.preprocess_image\<close>.
\<close>

record torch_env =
  to_dtype :: "string \<Rightarrow> tensor \<Rightarrow> tensor"
  preprocess_image :: "logdata \<Rightarrow> logdata"

subsection \<open>The system object\<close>

text \<open>
  A criterion is a callable; \<open>is_BCEWithLogitsLoss\<close> is what
  \<^verbatim>\<open>isinstance(self.criterion, torch.nn.BCEWithLogitsLoss)\<close> answers for it. A metric
  has the name \<^verbatim>\<open>get_name\<close> gives it and is called on a prediction and a target.
\<close>

record criterion =
  is_BCEWithLogitsLoss :: bool
  loss_fn :: "tensor \<Rightarrow> tensor \<Rightarrow> real"

record metric =
  metric_name :: string
  compute :: "tensor \<Rightarrow> tensor \<Rightarrow> real"

datatype pl_logger = WandbLogger | OtherLogger

text \<open>
  The six methods \<^verbatim>\<open>setup\<close> rebinds: the placeholder \<^verbatim>\<open>lambda: None\<close> of the
  constructor, deleted, or \<^verbatim>\<open>partial(self._dataloader, mode=m)\<close> (for a step,
  \<^verbatim>\<open>partial(self._step, mode=m)\<close>).
\<close>

datatype method_binding = Placeholder | Deleted | Partial string

text \<open>
  The attributes of \<^verbatim>\<open>System\<close> that \<^verbatim>\<open>_step\<close>, \<^verbatim>\<open>_log_by_type\<close> and \<^verbatim>\<open>setup\<close>
  read or write; \<open>loggers\<close> is \<^verbatim>\<open>self.logger\<close> and \<open>global_step\<close> is
  \<^verbatim>\<open>self.global_step\<close>. A patch-based inferer is called with the input and the system,
  whose forward pass it may use.
\<close>

record 'd system =
  debug :: bool
  model :: "tensor \<Rightarrow> tensor"
  criterion :: "criterion option"
  train_dataset :: "'d option"
  val_dataset :: "'d option"
  test_dataset :: "'d option"
  train_metrics :: "metric list"
  val_metrics :: "metric list"
  test_metrics :: "metric list"
  cast_target_dtype_to :: "string option"
  patch_based_inferer :: "((tensor \<Rightarrow> tensor) \<Rightarrow> tensor \<Rightarrow> tensor) option"
  log_input_as :: "string option"
  log_target_as :: "string option"
  log_pred_as :: "string option"
  lightning_module_methods_resetted :: bool
  train_dataloader :: method_binding
  training_step :: method_binding
  val_dataloader :: method_binding
  validation_step :: method_binding
  test_dataloader :: method_binding
  test_step :: method_binding
  loggers :: "pl_logger list"
  global_step :: nat

text \<open>
  The calls a step makes and the effects of \<^verbatim>\<open>_log_by_type\<close>, in order:
  \<^verbatim>\<open>self.criterion(pred, target)\<close>, \<^verbatim>\<open>m(pred, target)\<close> for a metric,
  \<^verbatim>\<open>self._log_by_type(name, data, data_type, on_step, on_epoch)\<close>,
  \<^verbatim>\<open>self.log(name, data, on_step, on_epoch)\<close>,
  \<^verbatim>\<open>lgr.experiment.log({name: wandb.Image(image)})\<close>, \<^verbatim>\<open>logger.error(msg)\<close> and
  \<^verbatim>\<open>debug_message(mode, input, target, pred, metrics, loss)\<close>.
\<close>

datatype event =
    CriterionCall tensor tensor
  | MetricCall string tensor tensor
  | LogByTypeCall string logdata pyval bool bool
  | SelfLog string logdata bool bool
  | WandbLog string logdata
  | LoggerError string
  | DebugMessage string tensor tensor tensor "(string \<times> real) list" "real option"

subsection \<open>Logging by type\<close>

text \<open>The loop over \<^verbatim>\<open>self.logger\<close> in the image branch of \<^verbatim>\<open>_log_by_type\<close>.\<close>

fun log_images ::
  "torch_env \<Rightarrow> 'd system \<Rightarrow> string \<Rightarrow> logdata \<Rightarrow> pyval \<Rightarrow> pl_logger list \<Rightarrow>
     event list \<times> py_error option" where
  "log_images env sys name data data_type [] = ([], None)"
| "log_images env sys name data data_type (lgr # rest) =
     (case (if data_type = PyStr ''image_single'' then getitem_0_1 data else Inr data) of
        Inl e \<Rightarrow> ([], Some e)
      | Inr image0 \<Rightarrow>
          (let image = preprocess_image env image0;
               evs = (if lgr = WandbLogger \<and> global_step sys mod 50 \<noteq> 0
                      then [WandbLog name image] else [])
           in case log_images env sys name data data_type rest of
                (evs', r) \<Rightarrow> (evs @ evs', r)))"

text \<open>
  \<^verbatim>\<open>_log_by_type(name, data, data_type, on_step, on_epoch)\<close>: the events it causes and
  the exception it raises, if any. The last branch logs an error and calls
  \<^verbatim>\<open>sys.exit()\<close>.
\<close>

definition System_log_by_type ::
  "torch_env \<Rightarrow> 'd system \<Rightarrow> string \<Rightarrow> logdata \<Rightarrow> pyval \<Rightarrow> bool \<Rightarrow> bool \<Rightarrow>
     event list \<times> py_error option" where
  "System_log_by_type env sys name data data_type on_step on_epoch =
     (if data_type = PyStr ''scalar'' then ([SelfLog name data on_step on_epoch], None)
      else if data_type = PyStr ''image_single'' \<or> data_type = PyStr ''image_batch''
      then log_images env sys name data data_type (loggers sys)
      else ([LoggerError (''type '' @ [CHR 0x27] @ py_str data_type @ [CHR 0x27]
                          @ '' not supported. Exiting.'')], Some SystemExit))"

subsection \<open>The step\<close>

text \<open>
  A sequence of calls \<^verbatim>\<open>self._log_by_type(name, data, data_type, on_step, True)\<close>,
  each recorded before its effects; the first exception ends the sequence.
\<close>

fun log_requests ::
  "torch_env \<Rightarrow> 'd system \<Rightarrow> bool \<Rightarrow> (string \<times> logdata \<times> pyval) list \<Rightarrow>
     event list \<times> py_error option" where
  "log_requests env sys on_step [] = ([], None)"
| "log_requests env sys on_step ((name, data, data_type) # rest) =
     (case System_log_by_type env sys name data data_type on_step True of
        (evs, Some e) \<Rightarrow> (LogByTypeCall name data data_type on_step True # evs, Some e)
      | (evs, None) \<Rightarrow>
          (case log_requests env sys on_step rest of
             (evs', r) \<Rightarrow> (LogByTypeCall name data data_type on_step True # evs @ evs', r)))"

text \<open>
  The prediction: the patch-based inferer in modes \<^verbatim>\<open>val\<close> and \<^verbatim>\<open>test\<close> when one
  is configured, the model's forward pass otherwise.
\<close>

definition predict :: "'d system \<Rightarrow> tensor \<Rightarrow> string \<Rightarrow> tensor" where
  "predict sys input mode =
     (case patch_based_inferer sys of
        Some inferer \<Rightarrow>
          (if mode = ''val'' \<or> mode = ''test'' then inferer (model sys) input
           else model sys input)
      | None \<Rightarrow> model sys input)"

text \<open>
  The reshaping of the prediction:
  \<^verbatim>\<open>if len(target.shape) == 1 and len(pred.shape) == 2 and pred.shape[1] == 1\<close>.
\<close>

definition squeeze_pred :: "tensor \<Rightarrow> tensor \<Rightarrow> tensor" where
  "squeeze_pred target pred =
     (if length (shape target) = 1 \<and> length (shape pred) = 2 \<and> shape pred ! 1 = 1
      then flatten pred else pred)"

text \<open>
  \<^verbatim>\<open>target.to(target_dtype)\<close>, with the assertion that a configured dtype name starts
  with \<^verbatim>\<open>torch.\<close>; \<^verbatim>\<open>target.to(None)\<close> is the target.
\<close>

definition cast_target :: "torch_env \<Rightarrow> 'd system \<Rightarrow> tensor \<Rightarrow> py_error + tensor" where
  "cast_target env sys target =
     (case cast_target_dtype_to sys of
        None \<Rightarrow> Inr target
      | Some target_dtype \<Rightarrow>
          (if take 6 target_dtype = ''torch.'' then Inr (to_dtype env target_dtype target)
           else Inl AssertionError))"

text \<open>
  The post-processing of the prediction once the loss is computed:
  \<^verbatim>\<open>if isinstance(self.criterion, torch.nn.BCEWithLogitsLoss): pred = torch.sigmoid(pred)\<close>.
\<close>

definition sigmoid_if_bce :: "'d system \<Rightarrow> tensor \<Rightarrow> tensor" where
  "sigmoid_if_bce sys pred =
     (case criterion sys of
        Some c \<Rightarrow> (if is_BCEWithLogitsLoss c then torch_sigmoid pred else pred)
      | None \<Rightarrow> pred)"

text \<open>\<^verbatim>\<open>getattr(self, f"{mode}_metrics")\<close>, \<^verbatim>\<open>getattr(self, f"_log_{key}_as")\<close> and
  \<^verbatim>\<open>eval(key)\<close> for the keys of the logging loop.\<close>

definition getattr_metrics :: "'d system \<Rightarrow> string \<Rightarrow> py_error + metric list" where
  "getattr_metrics sys mode =
     (if mode = ''train'' then Inr (train_metrics sys)
      else if mode = ''val'' then Inr (val_metrics sys)
      else if mode = ''test'' then Inr (test_metrics sys)
      else Inl AttributeError)"

definition getattr_log_as :: "'d system \<Rightarrow> string \<Rightarrow> string option" where
  "getattr_log_as sys key =
     (if key = ''input'' then log_input_as sys
      else if key = ''target'' then log_target_as sys
      else log_pred_as sys)"

definition eval_key :: "string \<Rightarrow> tensor \<Rightarrow> tensor \<Rightarrow> tensor \<Rightarrow> tensor" where
  "eval_key key input target pred =
     (if key = ''input'' then input else if key = ''target'' then target else pred)"

text \<open>
  The calls of the three logging loops of \<^verbatim>\<open>_step\<close>, as (name, data, data_type). In
  the last loop the source reads
  \<^verbatim>\<open>if data_type := getattr(self, f"_log_{key}_as") is not None:\<close>
  where \<^verbatim>\<open>:=\<close> binds more loosely than \<^verbatim>\<open>is not\<close>: \<^verbatim>\<open>data_type\<close> is the boolean
  result of the comparison.
\<close>

definition metric_requests :: "string \<Rightarrow> metric list \<Rightarrow> (string \<times> logdata \<times> pyval) list" where
  "metric_requests mode metrics =
     map (\<lambda>m. (mode @ ''/metric_'' @ metric_name m, MetricObject (metric_name m), PyStr ''scalar''))
       metrics"

definition loss_requests :: "string \<Rightarrow> real option \<Rightarrow> (string \<times> logdata \<times> pyval) list" where
  "loss_requests mode loss =
     (case loss of
        None \<Rightarrow> []
      | Some l \<Rightarrow> [(mode @ ''/loss'', LossValue l, PyStr ''scalar'')])"

definition key_requests ::
  "'d system \<Rightarrow> string \<Rightarrow> tensor \<Rightarrow> tensor \<Rightarrow> tensor \<Rightarrow> (string \<times> logdata \<times> pyval) list" where
  "key_requests sys mode input target pred =
     concat (map
       (\<lambda>key. let data_type = PyBool (getattr_log_as sys key \<noteq> None)
              in if data_type = PyBool True
                 then [(mode @ ''/'' @ key, TensorData (eval_key key input target pred), data_type)]
                 else [])
       [''input'', ''target'', ''pred''])"

text \<open>
  \<^verbatim>\<open>_step(batch, batch_idx, mode)\<close>: the events in order, and the exception raised or
  the loss returned. Calling a criterion that is \<^verbatim>\<open>None\<close> is a \<^verbatim>\<open>TypeError\<close>.
\<close>

definition System_step ::
  "torch_env \<Rightarrow> 'd system \<Rightarrow> tensor \<times> tensor \<Rightarrow> string \<Rightarrow>
     event list \<times> (py_error + real option)" where
  "System_step env sys batch mode =
     (let input = fst batch;
          target = snd batch;
          pred = squeeze_pred target (predict sys input mode)
      in case cast_target env sys target of
           Inl e \<Rightarrow> ([], Inl e)
         | Inr target_cast \<Rightarrow>
             (case (if mode = ''test'' then Inr ([], None)
                    else (case criterion sys of
                            None \<Rightarrow> Inl TypeError
                          | Some c \<Rightarrow> Inr ([CriterionCall pred target_cast],
                                            Some (loss_fn c pred target_cast)))) of
                Inl e \<Rightarrow> ([], Inl e)
              | Inr (evs_loss, loss) \<Rightarrow>
                  (let pred = sigmoid_if_bce sys pred
                   in case getattr_metrics sys mode of
                        Inl e \<Rightarrow> (evs_loss, Inl e)
                      | Inr metrics \<Rightarrow>
                          (let step_metrics =
                                 map (\<lambda>m. (metric_name m, compute m pred target)) metrics;
                               evs_metrics =
                                 map (\<lambda>m. MetricCall (metric_name m) pred target) metrics;
                               on_step = (mode = ''train'')
                           in case log_requests env sys on_step
                                     (metric_requests mode metrics @ loss_requests mode loss
                                      @ key_requests sys mode input target pred) of
                                (evs_log, Some e) \<Rightarrow>
                                  (evs_loss @ evs_metrics @ evs_log, Inl e)
                              | (evs_log, None) \<Rightarrow>
                                  (evs_loss @ evs_metrics @ evs_log
                                   @ (if debug sys
                                      then [DebugMessage mode input target pred step_metrics loss]
                                      else []),
                                   Inr loss)))))"

subsection \<open>Stage setup\<close>

definition dataset_required_by_stage :: "string \<Rightarrow> string option" where
  "dataset_required_by_stage =
     [''fit'' \<mapsto> ''train_dataset'', ''validate'' \<mapsto> ''val_dataset'', ''test'' \<mapsto> ''test_dataset'']"

text \<open>\<^verbatim>\<open>getattr(self, dataset_name)\<close> for the names in the dictionary above.\<close>

definition getattr_dataset :: "'d system \<Rightarrow> string \<Rightarrow> 'd option" where
  "getattr_dataset sys dataset_name =
     (if dataset_name = ''train_dataset'' then train_dataset sys
      else if dataset_name = ''val_dataset'' then val_dataset sys
      else test_dataset sys)"

text \<open>
  \<^verbatim>\<open>setup(stage)\<close>: the errors logged, the exception raised, if any, and the system as
  it is left. A stage that is not a key of the dictionary is a \<^verbatim>\<open>KeyError\<close>.
\<close>

definition System_setup ::
  "'d system \<Rightarrow> string \<Rightarrow> event list \<times> py_error option \<times> 'd system" where
  "System_setup sys stage =
     (case dataset_required_by_stage stage of
        None \<Rightarrow> ([], Some KeyError, sys)
      | Some dataset_name \<Rightarrow>
          (if getattr_dataset sys dataset_name = None
           then ([LoggerError (''Please specify '' @ [CHR 0x27] @ dataset_name @ [CHR 0x27]
                               @ '' in the config. Exiting.'')], Some SystemExit, sys)
           else
             let sys1 = (if \<not> lightning_module_methods_resetted sys
                         then sys\<lparr>train_dataloader := Deleted, val_dataloader := Deleted,
                                  test_dataloader := Deleted, training_step := Deleted,
                                  validation_step := Deleted, test_step := Deleted,
                                  lightning_module_methods_resetted := True\<rparr>
                         else sys);
                 sys2 = (if stage = ''fit'' \<or> stage = ''tune''
                         then sys1\<lparr>train_dataloader := Partial ''train'',
                                   training_step := Partial ''train''\<rparr>
                         else sys1);
                 sys3 = (if stage = ''validate''
                            \<or> ((stage = ''fit'' \<or> stage = ''tune'') \<and> val_dataset sys2 \<noteq> None)
                         then sys2\<lparr>val_dataloader := Partial ''val'',
                                   validation_step := Partial ''val''\<rparr>
                         else sys2);
                 sys4 = (if stage = ''test''
                         then sys3\<lparr>test_dataloader := Partial ''test'',
                                   test_step := Partial ''test''\<rparr>
                         else sys3)
             in ([], None, sys4)))"

section \<open>Concrete inputs\<close>

text \<open>
  Storage holding the root directory only; a trainer of a single-process run; the trainer
  of rank \<open>r\<close> among \<open>n\<close> processes, whose broadcast delivers rank 0's directory
  \<^verbatim>\<open>preds\<close>; a process state fresh from the constructor; a batch without IDs.
\<close>

definition root_only :: filesystem where
  "root_only = (\<lambda>p. if p = [] then Some Dir else None)"

definition solo_trainer :: trainer where
  "solo_trainer = \<lparr>world_size = 1, global_rank = 0, is_global_zero = True, dist_rank = 0,
      num_dataloaders = 1, broadcast = (\<lambda>p. p), barrier = (\<lambda>fs. fs)\<rparr>"

definition rank_trainer :: "int \<Rightarrow> int \<Rightarrow> (filesystem \<Rightarrow> filesystem) \<Rightarrow> trainer" where
  "rank_trainer n r b = \<lparr>world_size = n, global_rank = r, is_global_zero = (r = 0),
      dist_rank = r, num_dataloaders = 1, broadcast = (\<lambda>p. [''preds'']), barrier = b\<rparr>"

definition fresh_proc :: "path \<Rightarrow> (unit, nat) proc" where
  "fresh_proc dir = \<lparr>wr = \<lparr>directory = dir, writer = (), pred_counter = None\<rparr>,
      storage = root_only, warnings = [], written = [], predictions = []\<rparr>"

definition solo_state :: "(unit, nat) proc" where
  "solo_state = fresh_proc [''preds'']"

definition unnamed_batch :: "nat list \<Rightarrow> nat outputs" where
  "unnamed_batch preds = \<lparr>out_id = None, out_pred = preds\<rparr>"

text \<open>
  Two workers of a two-process run on shared storage: rank 0 creates the directory, and
  rank 1 sees it when the barrier returns.
\<close>

definition worker0 :: "(unit, nat) worker" where
  "worker0 = \<lparr>w_trainer = rank_trainer 2 0 (\<lambda>fs. fs), w_state = fresh_proc [''preds''],
      w_batches = [unnamed_batch [10, 11], unnamed_batch [12]]\<rparr>"

definition worker1 :: "(unit, nat) worker" where
  "worker1 = \<lparr>w_trainer = rank_trainer 2 1 (\<lambda>fs. fs([''preds''] \<mapsto> Dir)),
      w_state = fresh_proc [''preds''], w_batches = [unnamed_batch [20, 21]]\<rparr>"

definition example_writers :: "string \<Rightarrow> nat option" where
  "example_writers = [''tensor'' \<mapsto> 1, ''image'' \<mapsto> 2]"

text \<open>
  For the system: library functions that change nothing, a criterion of class
  \<^verbatim>\<open>BCEWithLogitsLoss\<close> (mean of the elementwise loss on logits) and one of another
  class (mean squared error), a metric, and a system with a training dataset only, no
  logging selector, and a model that returns \<open>out\<close> whatever the input.
\<close>

definition plain_env :: torch_env where
  "plain_env = \<lparr>to_dtype = (\<lambda>name t. t), preprocess_image = (\<lambda>d. d)\<rparr>"


definition mse :: criterion where
  "mse = \<lparr>is_BCEWithLogitsLoss = False,
      loss_fn = (\<lambda>p t. sum_list (map2 (\<lambda>x y. (x - y) * (x - y)) (elems p) (elems t))
                        / real (length (elems p)))\<rparr>"

definition mean_error :: metric where
  "mean_error = \<lparr>metric_name = ''mean_error'',
      compute = (\<lambda>p t. sum_list (map2 (\<lambda>x y. \<bar>x - y\<bar>) (elems p) (elems t))
                         / real (length (elems p)))\<rparr>"

definition example_system :: "criterion \<Rightarrow> tensor \<Rightarrow> nat system" where
  "example_system c out = \<lparr>debug = False, model = (\<lambda>x. out), criterion = Some c,
      train_dataset = Some 0, val_dataset = None, test_dataset = None,
      train_metrics = [mean_error], val_metrics = [], test_metrics = [],
      cast_target_dtype_to = None, patch_based_inferer = None,
      log_input_as = None, log_target_as = None, log_pred_as = None,
      lightning_module_methods_resetted = False,
      train_dataloader = Placeholder, training_step = Placeholder,
      val_dataloader = Placeholder, validation_step = Placeholder,
      test_dataloader = Placeholder, test_step = Placeholder,
      loggers = [WandbLogger], global_step = 7\<rparr>"

text \<open>The same system configured with \<^verbatim>\<open>log_pred_as="scalar"\<close>.\<close>

definition logging_system :: "criterion \<Rightarrow> tensor \<Rightarrow> nat system" where
  "logging_system c out = (example_system c out)\<lparr>log_pred_as := Some ''scalar''\<rparr>"

text \<open>
  A target of shape (3,) with a prediction of shape (5, 1); a target of shape (2,) with
  predictions of shapes (2, 1) and (2, 3); an input.
\<close>

definition target3 :: tensor where
  "target3 = \<lparr>shape = [3], elems = [1, 0, 1]\<rparr>"

definition pred51 :: tensor where
  "pred51 = \<lparr>shape = [5, 1], elems = [1, 2, 3, 4, 5]\<rparr>"

definition target2 :: tensor where
  "target2 = \<lparr>shape = [2], elems = [1, 0]\<rparr>"

definition pred21 :: tensor where
  "pred21 = \<lparr>shape = [2, 1], elems = [0, 0]\<rparr>"

definition pred23 :: tensor where
  "pred23 = \<lparr>shape = [2, 3], elems = [1, 2, 3, 4, 5, 6]\<rparr>"

definition input2 :: tensor where
  "input2 = \<lparr>shape = [2, 2], elems = [1, 2, 3, 4]\<rparr>"

section \<open>Properties of the writer callback\<close>

subsection \<open>Striding IDs\<close>

text \<open>
  With a positive step, \<^verbatim>\<open>range(c, c + b * n, n)\<close> has exactly \<open>b\<close> elements, from \<open>c\<close>
  in steps of \<open>n\<close>.
\<close>

lemma stride_div:
  assumes "0 < (n::int)"
  shows "(int (Suc k) * n - 1) div n = int k"
proof -
  have eq: "int (Suc k) * n - 1 = (n - 1) + int k * n" by (simp add: algebra_simps)
  have "((n - 1) + int k * n) div n = int k"
    using assms by (simp add: div_pos_pos_trivial)
  then show ?thesis by (simp only: eq)
qed

lemma range_len_stride:
  assumes "0 < n"
  shows "range_len c (c + int b * n) n = b"
proof (cases b)
  case 0
  then show ?thesis by (simp add: range_len_def)
next
  case (Suc k)
  have lt: "c < c + int (Suc k) * n" using assms by simp
  have "range_len c (c + int (Suc k) * n) n = nat ((int (Suc k) * n - 1) div n + 1)"
    unfolding range_len_def using assms lt by (simp only: if_True add_diff_cancel_left')
  also have "\<dots> = Suc k" by (simp only: stride_div [OF assms])
  finally show ?thesis using Suc by simp
qed

lemma py_range_stride:
  "0 < n \<Longrightarrow> py_range c (c + int b * n) n = Inr (map (\<lambda>i. c + int i * n) [0..<b])"
  by (simp add: py_range_def range_len_stride)

text \<open>
  A batch without IDs, met with the counter at \<open>c\<close>, gets the IDs \<open>c, c + n, \<dots>\<close> and
  moves the counter past them; the callback raises nothing.
\<close>

lemma assign_ids_unset:
  assumes "out_id outs = None" "pred_counter (wr s) = Some c" "0 < world_size tr"
  shows "assign_ids tr outs s =
     Inr (s\<lparr>wr := (wr s)\<lparr>pred_counter := Some (c + int (length (out_pred outs)) * world_size tr)\<rparr>\<rparr>,
          outs\<lparr>out_id := Some (map (\<lambda>i. c + int i * world_size tr) [0..<length (out_pred outs)])\<rparr>)"
  using assms by (simp add: assign_ids_def py_range_stride [OF assms(3)] Let_def del: upt_Suc)

lemma on_predict_batch_end_unset:
  assumes "out_id outs = None" "pred_counter (wr s) = Some c" "0 < world_size tr"
  shows "\<exists>s'. on_predict_batch_end tr outs s = (None, s',
            outs\<lparr>out_id := Some (map (\<lambda>i. c + int i * world_size tr) [0..<length (out_pred outs)])\<rparr>)
          \<and> pred_counter (wr s') = Some (c + int (length (out_pred outs)) * world_size tr)"
  using assms by (simp add: on_predict_batch_end_def assign_ids_unset)

lemma stride_append:
  "map (\<lambda>i. c + int i * n) [0..<a] @ map (\<lambda>i. (c + int a * n) + int i * n) [0..<b]
     = map (\<lambda>i. c + int i * n) [0..<a + b]"
proof -
  have "map (\<lambda>i. (c + int a * n) + int i * n) [0..<b] = map (\<lambda>i. c + int i * n) [a..<a + b]"
    by (induction b) (simp_all add: algebra_simps)
  moreover have "[0..<a + b] = [0..<a] @ [a..<a + b]"
    by (rule upt_add_eq_append) simp
  ultimately show ?thesis by (simp only: map_append)
qed

lemma predict_batches_unset:
  assumes "\<forall>b\<in>set batches. out_id b = None" "pred_counter (wr s) = Some c" "0 < world_size tr"
  shows "\<exists>s' batches'. predict_batches tr batches s = (None, s', batches')
           \<and> ids_of batches' = map (\<lambda>i. c + int i * world_size tr) [0..<total_preds batches]"
  using assms
proof (induction batches arbitrary: s c)
  case Nil
  then show ?case by (simp add: ids_of_def total_preds_def)
next
  case (Cons b rest)
  let ?n = "world_size tr"
  let ?k = "length (out_pred b)"
  from Cons.prems obtain s1 where
    step: "on_predict_batch_end tr b s = (None, s1,
             b\<lparr>out_id := Some (map (\<lambda>i. c + int i * ?n) [0..<?k])\<rparr>)"
    and cnt: "pred_counter (wr s1) = Some (c + int ?k * ?n)"
    using on_predict_batch_end_unset [of b s c tr] by auto
  from Cons.prems have "\<forall>b\<in>set rest. out_id b = None" by simp
  from Cons.IH [OF this cnt Cons.prems(3)] obtain s2 rest' where
    rest: "predict_batches tr rest s1 = (None, s2, rest')"
    and ids: "ids_of rest' = map (\<lambda>i. (c + int ?k * ?n) + int i * ?n) [0..<total_preds rest]"
    by blast
  have "predict_batches tr (b # rest) s =
          (None, s2, b\<lparr>out_id := Some (map (\<lambda>i. c + int i * ?n) [0..<?k])\<rparr> # rest')"
    using step rest by simp
  moreover have "ids_of (b\<lparr>out_id := Some (map (\<lambda>i. c + int i * ?n) [0..<?k])\<rparr> # rest')
      = map (\<lambda>i. c + int i * ?n) [0..<total_preds (b # rest)]"
    using ids stride_append [of c ?n ?k "total_preds rest"]
    by (simp add: ids_of_def total_preds_def)
  ultimately show ?case by blast
qed

text \<open>
  \<^verbatim>\<open>setup\<close> for the prediction stage seeds the counter before anything can fail.
\<close>

lemma setup_predict_counter:
  "pred_counter (wr (snd (LighterBaseWriter_setup tr ''predict'' s)))
     = Some (if world_size tr > 1 then dist_rank tr else 0)"
  by (simp add: LighterBaseWriter_setup_def Let_def split: sum.splits)

lemma predict_stage_unset:
  assumes ok: "fst (LighterBaseWriter_setup tr ''predict'' s) = None"
    and unset: "\<forall>b\<in>set batches. out_id b = None"
    and rank: "0 \<le> dist_rank tr" "dist_rank tr < world_size tr"
  shows "fst (predict_stage tr s batches) = None \<and>
         ids_of (snd (snd (predict_stage tr s batches)))
           = map (\<lambda>i. dist_rank tr + int i * world_size tr) [0..<total_preds batches]"
proof -
  obtain s1 where s1: "LighterBaseWriter_setup tr ''predict'' s = (None, s1)"
    using ok by (cases "LighterBaseWriter_setup tr ''predict'' s") simp
  have "pred_counter (wr s1) = Some (if world_size tr > 1 then dist_rank tr else 0)"
    using setup_predict_counter [of tr s] s1 by simp
  moreover have "(if world_size tr > 1 then dist_rank tr else 0) = dist_rank tr"
    using rank by simp
  ultimately have cnt: "pred_counter (wr s1) = Some (dist_rank tr)" by simp
  have pos: "0 < world_size tr" using rank by simp
  from predict_batches_unset [OF unset cnt pos] obtain s2 batches' where
    run: "predict_batches tr batches s1 = (None, s2, batches')"
    and ids: "ids_of batches' = map (\<lambda>i. dist_rank tr + int i * world_size tr) [0..<total_preds batches]"
    by blast
  show ?thesis using s1 run ids by (simp add: predict_stage_def)
qed

text \<open>
  Progressions with a common difference \<open>n\<close> that start at distinct residues below
  \<open>n\<close> never meet.
\<close>

lemma stride_mod: "0 < n \<Longrightarrow> 0 \<le> r \<Longrightarrow> r < n \<Longrightarrow> x \<in> set (stride n r k) \<Longrightarrow> x mod n = r"
  by (auto simp: stride_def)

lemma distinct_stride: "0 < n \<Longrightarrow> distinct (stride n r k)"
  by (simp add: stride_def distinct_map inj_on_def)

lemma distinct_strides:
  assumes "0 < n"
  shows "distinct (map fst rs) \<Longrightarrow> \<forall>p\<in>set rs. 0 \<le> fst p \<and> fst p < n \<Longrightarrow>
         distinct (concat (map (\<lambda>p. stride n (fst p) (snd p)) rs))"
proof (induction rs)
  case Nil
  then show ?case by simp
next
  case (Cons p rs)
  have "set (stride n (fst p) (snd p)) \<inter> set (concat (map (\<lambda>p. stride n (fst p) (snd p)) rs)) = {}"
  proof (rule ccontr)
    assume "\<not> ?thesis"
    then obtain x q where x: "x \<in> set (stride n (fst p) (snd p))"
      and q: "q \<in> set rs" and xq: "x \<in> set (stride n (fst q) (snd q))"
      by auto
    have "x mod n = fst p" using stride_mod [OF assms _ _ x] Cons.prems(2) by simp
    moreover have "x mod n = fst q" using stride_mod [OF assms _ _ xq] Cons.prems(2) q by simp
    ultimately have "fst p = fst q" by simp
    then have "fst p \<in> fst ` set rs" using q by (simp add: image_iff) blast
    then show False using Cons.prems(1) by simp
  qed
  moreover have "distinct (concat (map (\<lambda>p. stride n (fst p) (snd p)) rs))"
    using Cons by simp
  ultimately show ?case using distinct_stride [OF assms] by simp
qed

text \<open>
  \<^bold>\<open>C1.\<close> Take any run whose worker processes all see world size \<open>n\<close>, have
  pairwise distinct ranks in \<open>0..<n\<close>, have come through \<^verbatim>\<open>setup\<close> for the prediction
  stage, and are handed only batches whose \<^verbatim>\<open>outputs["id"]\<close> is \<open>None\<close>. Then no
  callback raises, the IDs assigned across all processes are pairwise distinct, and the
  IDs of each process are the arithmetic progression that starts at its rank and has
  common difference \<open>n\<close>, one term per prediction.
\<close>

theorem C1_ids:
  assumes procs: "\<forall>w\<in>set procs.
        world_size (w_trainer w) = n \<and> 0 \<le> dist_rank (w_trainer w) \<and> dist_rank (w_trainer w) < n
        \<and> (\<forall>b\<in>set (w_batches w). out_id b = None)
        \<and> fst (LighterBaseWriter_setup (w_trainer w) ''predict'' (w_state w)) = None"
    and ranks: "distinct (map (\<lambda>w. dist_rank (w_trainer w)) procs)"
  shows "distinct (concat (map stage_ids procs)) \<and>
         (\<forall>w\<in>set procs.
            fst (predict_stage (w_trainer w) (w_state w) (w_batches w)) = None \<and>
            stage_ids w = map (\<lambda>k. dist_rank (w_trainer w) + int k * n) [0..<total_preds (w_batches w)])"
proof -
  have each: "fst (predict_stage (w_trainer w) (w_state w) (w_batches w)) = None \<and>
      stage_ids w = stride n (dist_rank (w_trainer w)) (total_preds (w_batches w))"
    if "w \<in> set procs" for w
    using predict_stage_unset [of "w_trainer w" "w_state w" "w_batches w"] procs that
    by (simp add: stride_def stage_ids_def)
  show ?thesis
  proof (cases procs)
    case Nil
    then show ?thesis by simp
  next
    case (Cons p ps)
    have pos: "0 < n" using procs Cons by auto
    let ?rs = "map (\<lambda>w. (dist_rank (w_trainer w), total_preds (w_batches w))) procs"
    have d: "distinct (map fst ?rs)" using ranks by (simp add: comp_def)
    have b: "\<forall>p\<in>set ?rs. 0 \<le> fst p \<and> fst p < n" using procs by auto
    have "map stage_ids procs = map (\<lambda>p. stride n (fst p) (snd p)) ?rs"
      using each by simp
    then have "distinct (concat (map stage_ids procs))"
      using distinct_strides [OF pos d b] by (simp only:)
    then show ?thesis using each by (simp add: stride_def)
  qed
qed

text \<open>
  A run of two processes on shared storage: rank 0 gets the IDs 0, 2, 4 for its batches of
  two and one predictions, rank 1 gets 1, 3.
\<close>

lemma setup_worker0: "fst (LighterBaseWriter_setup (w_trainer worker0) ''predict'' (w_state worker0)) = None"
  by (simp add: worker0_def rank_trainer_def fresh_proc_def LighterBaseWriter_setup_def
      path_exists_def root_only_def mkdir_parents.simps Let_def)

lemma setup_worker1: "fst (LighterBaseWriter_setup (w_trainer worker1) ''predict'' (w_state worker1)) = None"
  by (simp add: worker1_def rank_trainer_def fresh_proc_def LighterBaseWriter_setup_def
      path_exists_def root_only_def Let_def)

theorem C1_ids_witness:
  "distinct (concat (map stage_ids [worker0, worker1])) \<and>
   stage_ids worker0 = [0, 2, 4] \<and> stage_ids worker1 = [1, 3]"
proof -
  have "\<forall>w\<in>set [worker0, worker1].
        world_size (w_trainer w) = 2 \<and> 0 \<le> dist_rank (w_trainer w) \<and> dist_rank (w_trainer w) < 2
        \<and> (\<forall>b\<in>set (w_batches w). out_id b = None)
        \<and> fst (LighterBaseWriter_setup (w_trainer w) ''predict'' (w_state w)) = None"
    using setup_worker0 setup_worker1
    by (simp add: worker0_def worker1_def rank_trainer_def unnamed_batch_def)
  moreover have "distinct (map (\<lambda>w. dist_rank (w_trainer w)) [worker0, worker1])"
    by (simp add: worker0_def worker1_def rank_trainer_def)
  ultimately have r: "distinct (concat (map stage_ids [worker0, worker1])) \<and>
         (\<forall>w\<in>set [worker0, worker1].
            fst (predict_stage (w_trainer w) (w_state w) (w_batches w)) = None \<and>
            stage_ids w = map (\<lambda>k. dist_rank (w_trainer w) + int k * 2) [0..<total_preds (w_batches w)])"
    by (rule C1_ids)
  have "total_preds (w_batches worker0) = 3" "total_preds (w_batches worker1) = 2"
       "dist_rank (w_trainer worker0) = 0" "dist_rank (w_trainer worker1) = 1"
    by (simp_all add: worker0_def worker1_def total_preds_def unnamed_batch_def rank_trainer_def)
  moreover have "[0..<3] = [0, 1, 2]" "[0..<2] = [0, 1]" by (simp_all add: upt_rec)
  ultimately show ?thesis using r by simp
qed

text \<open>
  \<^bold>\<open>C8.\<close> In a single-process run (world size 1) whose first two prediction batches
  hold four predictions each and carry no IDs, the writer assigns the IDs 0, 1, 2, 3 to
  the first batch and 4, 5, 6, 7 to the second.
\<close>

theorem C8_single_process_ids:
  assumes ws: "world_size tr = 1"
    and ok: "fst (LighterBaseWriter_setup tr ''predict'' s) = None"
    and b1: "out_id b1 = None" "length (out_pred b1) = 4"
    and b2: "out_id b2 = None" "length (out_pred b2) = 4"
  shows "fst (predict_stage tr s [b1, b2]) = None \<and>
         map out_id (snd (snd (predict_stage tr s [b1, b2])))
           = [Some [0, 1, 2, 3], Some [4, 5, 6, 7]]"
proof -
  obtain s1 where s1: "LighterBaseWriter_setup tr ''predict'' s = (None, s1)"
    using ok by (cases "LighterBaseWriter_setup tr ''predict'' s") simp
  have c1: "pred_counter (wr s1) = Some 0"
    using setup_predict_counter [of tr s] s1 ws by simp
  have four: "[0..<4] = [0, 1, 2, 3]" by (simp add: upt_rec)
  have pos: "0 < world_size tr" using ws by simp
  from on_predict_batch_end_unset [OF b1(1) c1 pos] obtain s2 where
    e1: "on_predict_batch_end tr b1 s1 = (None, s2, b1\<lparr>out_id := Some [0, 1, 2, 3]\<rparr>)"
    and c2: "pred_counter (wr s2) = Some 4"
    using ws b1(2) four by auto
  from on_predict_batch_end_unset [OF b2(1) c2 pos] obtain s3 where
    e2: "on_predict_batch_end tr b2 s2 = (None, s3, b2\<lparr>out_id := Some [4, 5, 6, 7]\<rparr>)"
    using ws b2(2) four by auto
  show ?thesis using s1 e1 e2 by (simp add: predict_stage_def)
qed

text \<open>
  The single-process trainer on fresh storage: the IDs are assigned as stated, and they are
  the IDs \<^verbatim>\<open>write\<close> is called with, in this order.
\<close>

theorem C8_single_process_ids_witness:
  "map out_id (snd (snd (predict_stage solo_trainer solo_state
       [unnamed_batch [10, 11, 12, 13], unnamed_batch [14, 15, 16, 17]])))
     = [Some [0, 1, 2, 3], Some [4, 5, 6, 7]] \<and>
   map fst (written (fst (snd (predict_stage solo_trainer solo_state
       [unnamed_batch [10, 11, 12, 13], unnamed_batch [14, 15, 16, 17]]))))
     = [0, 1, 2, 3, 4, 5, 6, 7]"
proof -
  have ok: "fst (LighterBaseWriter_setup solo_trainer ''predict'' solo_state) = None"
    by (simp add: solo_trainer_def solo_state_def fresh_proc_def LighterBaseWriter_setup_def
        path_exists_def root_only_def mkdir_parents.simps Let_def)
  have ids: "map out_id (snd (snd (predict_stage solo_trainer solo_state
       [unnamed_batch [10, 11, 12, 13], unnamed_batch [14, 15, 16, 17]])))
     = [Some [0, 1, 2, 3], Some [4, 5, 6, 7]]"
    using C8_single_process_ids [of solo_trainer solo_state "unnamed_batch [10, 11, 12, 13]"
        "unnamed_batch [14, 15, 16, 17]"] ok
    by (simp add: solo_trainer_def unnamed_batch_def)
  have "map fst (written (fst (snd (predict_stage solo_trainer solo_state
       [unnamed_batch [10, 11, 12, 13], unnamed_batch [14, 15, 16, 17]]))))
     = [0, 1, 2, 3, 4, 5, 6, 7]"
    by (simp add: predict_stage_def solo_trainer_def solo_state_def fresh_proc_def
        LighterBaseWriter_setup_def path_exists_def root_only_def mkdir_parents.simps Let_def
        unnamed_batch_def on_predict_batch_end_def assign_ids_def py_range_def range_len_def
        upt_rec)
  with ids show ?thesis by simp
qed

subsection \<open>Setup\<close>

lemma init_fields:
  "LighterBaseWriter_init writers dir w = Inr obj \<Longrightarrow> directory obj = dir \<and> pred_counter obj = None"
  by (auto simp: LighterBaseWriter_init_def split: writer_arg.splits option.splits)

text \<open>
  \<^bold>\<open>C5.\<close> For every stage other than \<^verbatim>\<open>predict\<close>, \<^verbatim>\<open>setup\<close> returns normally and
  leaves the whole state as it was: the directory is neither broadcast nor created, and
  the prediction counter of a writer fresh from its constructor is still \<open>None\<close>.
\<close>

theorem C5_setup_other_stage:
  assumes "stage \<noteq> ''predict''"
  shows "LighterBaseWriter_setup tr stage s = (None, s) \<and>
         (LighterBaseWriter_init writers dir w = Inr (wr s) \<longrightarrow>
            pred_counter (wr (snd (LighterBaseWriter_setup tr stage s))) = None)"
  using assms by (auto simp: LighterBaseWriter_setup_def dest: init_fields)

text \<open>
  Stage \<^verbatim>\<open>fit\<close> on the single-process trainer: the state is returned unchanged, the
  counter is unset and the directory does not exist.
\<close>

theorem C5_setup_other_stage_witness:
  "LighterBaseWriter_setup solo_trainer ''fit'' solo_state = (None, solo_state) \<and>
   pred_counter (wr (snd (LighterBaseWriter_setup solo_trainer ''fit'' solo_state))) = None \<and>
   storage (snd (LighterBaseWriter_setup solo_trainer ''fit'' solo_state)) [''preds''] = None"
proof -
  have "LighterBaseWriter_init (Map.empty :: string \<Rightarrow> unit option) [''preds''] (WriterObject ())
          = Inr (wr solo_state)"
    by (simp add: LighterBaseWriter_init_def solo_state_def fresh_proc_def)
  then show ?thesis
    using C5_setup_other_stage [of "''fit''" solo_trainer solo_state Map.empty "[''preds'']" "WriterObject ()"]
    by (simp add: solo_state_def fresh_proc_def root_only_def)
qed

text \<open>
  What \<^verbatim>\<open>mkdir(parents=True, exist_ok=True)\<close> leaves behind: the path is a directory,
  and only the path and its ancestors can have changed.
\<close>

lemma mkdir_parents_creates: "mkdir_parents fs p = Inr fs' \<Longrightarrow> fs' p = Some Dir"
  by (subst (asm) mkdir_parents.simps) (auto split: option.splits node.splits if_splits sum.splits)

lemma mkdir_parents_frame:
  "mkdir_parents fs p = Inr fs' \<Longrightarrow> fs' q \<noteq> fs q \<Longrightarrow> prefix q p"
proof (induction fs p arbitrary: fs' rule: mkdir_parents.induct)
  case (1 fs p)
  show ?case
  proof (cases "fs p")
    case None
    with "1.prems"(1) have ne: "p \<noteq> []"
      by (subst (asm) mkdir_parents.simps) (auto split: if_splits)
    with None "1.prems"(1) obtain fs1 where
      rec: "mkdir_parents fs (butlast p) = Inr fs1" and fs': "fs' = fs1(p \<mapsto> Dir)"
      by (subst (asm) mkdir_parents.simps) (auto split: sum.splits)
    show ?thesis
    proof (cases "q = p")
      case True
      then show ?thesis by simp
    next
      case False
      with fs' "1.prems"(2) have "fs1 q \<noteq> fs q" by simp
      from "1.IH" [OF None ne rec this] have "prefix q (butlast p)" .
      then show ?thesis using prefixeq_butlast prefix_order.trans by blast
    qed
  next
    case (Some k)
    with "1.prems" show ?thesis
      by (subst (asm) mkdir_parents.simps) (auto split: node.splits)
  qed
qed

text \<open>
  \<^bold>\<open>C6.\<close> In \<^verbatim>\<open>setup\<close> for the \<^verbatim>\<open>predict\<close> stage, a process that is not the
  coordinating one creates nothing: the storage it ends with is the storage the barrier
  shows it. If the broadcast directory does not exist there, \<^verbatim>\<open>setup\<close> raises
  \<^verbatim>\<open>RuntimeError\<close>. The coordinating process is the one that calls \<^verbatim>\<open>mkdir\<close>: when
  the call succeeds the directory exists in the storage it takes to the barrier.
\<close>

theorem C6_setup_no_shared_storage:
  "(\<not> is_global_zero tr \<longrightarrow>
      storage (snd (LighterBaseWriter_setup tr ''predict'' s)) = barrier tr (storage s) \<and>
      (\<not> path_exists (barrier tr (storage s)) (broadcast tr (directory (wr s))) \<longrightarrow>
         fst (LighterBaseWriter_setup tr ''predict'' s) = Some RuntimeError)) \<and>
   (is_global_zero tr \<longrightarrow>
      (\<forall>fs'. mkdir_parents (storage s) (broadcast tr (directory (wr s))) = Inr fs' \<longrightarrow>
         fs' (broadcast tr (directory (wr s))) = Some Dir \<and>
         storage (snd (LighterBaseWriter_setup tr ''predict'' s)) = barrier tr fs'))"
  by (auto simp: LighterBaseWriter_setup_def Let_def mkdir_parents_creates)

text \<open>
  Rank 1 of two processes without shared storage: \<^verbatim>\<open>RuntimeError\<close>, and its storage
  holds the root only. Rank 0 on the same storage creates the directory.
\<close>

theorem C6_setup_no_shared_storage_witness:
  "fst (LighterBaseWriter_setup (rank_trainer 2 1 (\<lambda>fs. fs)) ''predict'' solo_state)
     = Some RuntimeError \<and>
   storage (snd (LighterBaseWriter_setup (rank_trainer 2 1 (\<lambda>fs. fs)) ''predict'' solo_state))
     = root_only \<and>
   storage (snd (LighterBaseWriter_setup (rank_trainer 2 0 (\<lambda>fs. fs)) ''predict'' solo_state))
     = root_only([''preds''] \<mapsto> Dir)"
proof -
  let ?t1 = "rank_trainer 2 1 (\<lambda>fs. fs)"
  let ?t0 = "rank_trainer 2 0 (\<lambda>fs. fs)"
  have ngz: "\<not> is_global_zero ?t1" by (simp add: rank_trainer_def)
  have absent: "\<not> path_exists (barrier ?t1 (storage solo_state))
                   (broadcast ?t1 (directory (wr solo_state)))"
    by (simp add: rank_trainer_def solo_state_def fresh_proc_def path_exists_def root_only_def)
  have b1: "barrier ?t1 (storage solo_state) = root_only"
    by (simp add: rank_trainer_def solo_state_def fresh_proc_def)
  have gz: "is_global_zero ?t0" by (simp add: rank_trainer_def)
  have "mkdir_parents root_only [''preds''] = Inr (root_only([''preds''] \<mapsto> Dir))"
    by (simp add: mkdir_parents.simps root_only_def)
  then have mk: "mkdir_parents (storage solo_state) (broadcast ?t0 (directory (wr solo_state)))
      = Inr (root_only([''preds''] \<mapsto> Dir))"
    by (simp add: rank_trainer_def solo_state_def fresh_proc_def)
  have b0: "barrier ?t0 (root_only([''preds''] \<mapsto> Dir)) = root_only([''preds''] \<mapsto> Dir)"
    by (simp add: rank_trainer_def)
  from C6_setup_no_shared_storage [of ?t1 solo_state] ngz absent
  have "fst (LighterBaseWriter_setup ?t1 ''predict'' solo_state) = Some RuntimeError"
    and "storage (snd (LighterBaseWriter_setup ?t1 ''predict'' solo_state)) = root_only"
    unfolding b1 by blast+
  moreover from C6_setup_no_shared_storage [of ?t0 solo_state] gz mk
  have "storage (snd (LighterBaseWriter_setup ?t0 ''predict'' solo_state))
          = barrier ?t0 (root_only([''preds''] \<mapsto> Dir))"
    by blast
  then have "storage (snd (LighterBaseWriter_setup ?t0 ''predict'' solo_state))
          = root_only([''preds''] \<mapsto> Dir)"
    by (simp only: b0)
  ultimately show ?thesis by blast
qed

text \<open>
  \<^bold>\<open>C7.\<close> The directory the writer works in after \<^verbatim>\<open>setup\<close> is the configured base
  path itself, as broadcast from rank 0, and when no other process writes to the storage
  the only paths \<^verbatim>\<open>setup\<close> can have created are that path and its ancestors. No
  sub-directory of the base path, dated or other, is created.
\<close>

theorem C7_setup_creates_base_only:
  assumes init: "LighterBaseWriter_init writers dir w = Inr (wr s)"
    and alone: "barrier tr = (\<lambda>fs. fs)"
  shows "directory (wr (snd (LighterBaseWriter_setup tr ''predict'' s))) = broadcast tr dir \<and>
         (\<forall>q. storage (snd (LighterBaseWriter_setup tr ''predict'' s)) q \<noteq> storage s q
               \<longrightarrow> prefix q (broadcast tr dir))"
proof -
  have dir: "directory (wr s) = dir"
    using init_fields [OF init] by simp
  show ?thesis
    using alone dir
    by (auto simp: LighterBaseWriter_setup_def Let_def
        split: if_splits sum.splits dest: mkdir_parents_frame)
qed

text \<open>
  The single-process trainer with base path \<^verbatim>\<open>preds\<close>: the writer's directory is
  \<^verbatim>\<open>preds\<close>, which now exists, and nothing exists inside it.
\<close>

lemma setup_solo:
  "LighterBaseWriter_setup solo_trainer ''predict'' solo_state
     = (None, solo_state\<lparr>wr := \<lparr>directory = [''preds''], writer = (), pred_counter = Some 0\<rparr>,
                           storage := root_only([''preds''] \<mapsto> Dir)\<rparr>)"
proof -
  have "mkdir_parents root_only [''preds''] = Inr (root_only([''preds''] \<mapsto> Dir))"
    by (simp add: mkdir_parents.simps root_only_def)
  moreover have "\<not> path_exists root_only [''preds'']"
    by (simp add: path_exists_def root_only_def)
  ultimately show ?thesis
    by (simp add: solo_trainer_def solo_state_def fresh_proc_def LighterBaseWriter_setup_def
        Let_def path_exists_def)
qed

theorem C7_setup_creates_base_only_witness:
  "directory (wr (snd (LighterBaseWriter_setup solo_trainer ''predict'' solo_state))) = [''preds''] \<and>
   storage (snd (LighterBaseWriter_setup solo_trainer ''predict'' solo_state)) [''preds''] = Some Dir \<and>
   storage (snd (LighterBaseWriter_setup solo_trainer ''predict'' solo_state))
     [''preds'', ''2026-11-06_00-00-00''] = None"
proof -
  have init: "LighterBaseWriter_init (Map.empty :: string \<Rightarrow> unit option) [''preds''] (WriterObject ())
          = Inr (wr solo_state)"
    by (simp add: LighterBaseWriter_init_def solo_state_def fresh_proc_def)
  have alone: "barrier solo_trainer = (\<lambda>fs. fs)" by (simp add: solo_trainer_def)
  have base: "broadcast solo_trainer [''preds''] = [''preds'']" by (simp add: solo_trainer_def)
  have before: "storage solo_state [''preds'', ''2026-11-06_00-00-00''] = None"
    by (simp add: solo_state_def fresh_proc_def root_only_def)
  have np: "\<not> prefix [''preds'', ''2026-11-06_00-00-00''] [''preds'']" by simp
  from C7_setup_creates_base_only [OF init alone]
  have d: "directory (wr (snd (LighterBaseWriter_setup solo_trainer ''predict'' solo_state)))
             = [''preds'']"
    and "\<forall>q. storage (snd (LighterBaseWriter_setup solo_trainer ''predict'' solo_state)) q
               \<noteq> storage solo_state q \<longrightarrow> prefix q [''preds'']"
    unfolding base by blast+
  with np before
  have "storage (snd (LighterBaseWriter_setup solo_trainer ''predict'' solo_state))
          [''preds'', ''2026-11-06_00-00-00''] = None"
    by metis
  moreover have "storage (snd (LighterBaseWriter_setup solo_trainer ''predict'' solo_state))
          [''preds''] = Some Dir"
    by (simp add: setup_solo)
  ultimately show ?thesis using d by blast
qed

subsection \<open>Construction\<close>

text \<open>
  \<^bold>\<open>C10.\<close> The constructor raises \<^verbatim>\<open>ValueError\<close> for a string that is not a key of
  \<^verbatim>\<open>self.writers\<close>, stores the mapped function for a string that is a key, and stores
  an argument that is not a string unchanged.
\<close>

theorem C10_init:
  "(writers name = None \<longrightarrow> LighterBaseWriter_init writers dir (WriterName name) = Inl ValueError) \<and>
   (\<forall>f. writers name = Some f \<longrightarrow>
      LighterBaseWriter_init writers dir (WriterName name)
        = Inr \<lparr>directory = dir, writer = f, pred_counter = None\<rparr>) \<and>
   LighterBaseWriter_init writers dir (WriterObject g)
     = Inr \<lparr>directory = dir, writer = g, pred_counter = None\<rparr>"
  by (simp add: LighterBaseWriter_init_def)

text \<open>
  With writers registered for \<^verbatim>\<open>tensor\<close> and \<^verbatim>\<open>image\<close>: the name \<^verbatim>\<open>video\<close> is
  refused, \<^verbatim>\<open>image\<close> is looked up, and another object is kept.
\<close>

theorem C10_init_witness:
  "LighterBaseWriter_init example_writers [''preds''] (WriterName ''video'') = Inl ValueError \<and>
   LighterBaseWriter_init example_writers [''preds''] (WriterName ''image'')
     = Inr \<lparr>directory = [''preds''], writer = 2, pred_counter = None\<rparr> \<and>
   LighterBaseWriter_init example_writers [''preds''] (WriterObject 7)
     = Inr \<lparr>directory = [''preds''], writer = 7, pred_counter = None\<rparr>"
  using C10_init [of example_writers "''video''" "[''preds'']" 7]
    C10_init [of example_writers "''image''" "[''preds'']" 7]
  by (simp add: example_writers_def)

section \<open>Properties of the system adapter\<close>

subsection \<open>The events of a step\<close>

text \<open>
  \<^verbatim>\<open>_log_by_type\<close> and a sequence of its calls cause logging events only.
\<close>

lemma log_images_events:
  "e \<in> set (fst (log_images env sys name data dt lgrs)) \<Longrightarrow> \<exists>n d. e = WandbLog n d"
  by (induction lgrs arbitrary: e) (auto simp: Let_def split: sum.splits prod.splits if_splits)

lemma log_by_type_events:
  "e \<in> set (fst (System_log_by_type env sys name data dt a b)) \<Longrightarrow>
     (\<exists>n d x y. e = SelfLog n d x y) \<or> (\<exists>n d. e = WandbLog n d) \<or> (\<exists>m. e = LoggerError m)"
  by (auto simp: System_log_by_type_def dest: log_images_events split: if_splits)

lemma log_requests_events:
  "e \<in> set (fst (log_requests env sys on_step rs)) \<Longrightarrow>
     (\<exists>n d x y. e = SelfLog n d x y) \<or> (\<exists>n d. e = WandbLog n d) \<or> (\<exists>m. e = LoggerError m)
     \<or> (\<exists>r\<in>set rs. e = LogByTypeCall (fst r) (fst (snd r)) (snd (snd r)) on_step True)"
proof (induction rs arbitrary: e)
  case Nil
  then show ?case by simp
next
  case (Cons r rs)
  obtain name data dt where r: "r = (name, data, dt)" by (cases r)
  obtain evs res where lt: "System_log_by_type env sys name data dt on_step True = (evs, res)"
    by (cases "System_log_by_type env sys name data dt on_step True")
  obtain evs' res' where lr: "log_requests env sys on_step rs = (evs', res')"
    by (cases "log_requests env sys on_step rs")
  from Cons.prems r lt lr
  have "e = LogByTypeCall name data dt on_step True \<or> e \<in> set evs \<or> e \<in> set evs'"
    by (cases res) auto
  then show ?case
  proof (elim disjE)
    assume "e = LogByTypeCall name data dt on_step True"
    then show ?thesis using r by simp
  next
    assume "e \<in> set evs"
    then have "e \<in> set (fst (System_log_by_type env sys name data dt on_step True))"
      using lt by simp
    from log_by_type_events [OF this] show ?thesis by blast
  next
    assume "e \<in> set evs'"
    then have "e \<in> set (fst (log_requests env sys on_step rs))" using lr by simp
    from Cons.IH [OF this] show ?thesis by auto
  qed
qed

lemma log_requests_effects:
  "e \<in> set (fst (log_requests env sys on_step rs)) \<Longrightarrow>
     (\<exists>r\<in>set rs. e = LogByTypeCall (fst r) (fst (snd r)) (snd (snd r)) on_step True
        \<or> e \<in> set (fst (System_log_by_type env sys (fst r) (fst (snd r)) (snd (snd r)) on_step True)))"
proof (induction rs arbitrary: e)
  case Nil
  then show ?case by simp
next
  case (Cons r rs)
  obtain name data dt where r: "r = (name, data, dt)" by (cases r)
  obtain evs res where lt: "System_log_by_type env sys name data dt on_step True = (evs, res)"
    by (cases "System_log_by_type env sys name data dt on_step True")
  obtain evs' res' where lr: "log_requests env sys on_step rs = (evs', res')"
    by (cases "log_requests env sys on_step rs")
  from Cons.prems r lt lr
  have "e = LogByTypeCall name data dt on_step True \<or> e \<in> set evs \<or> e \<in> set evs'"
    by (cases res) auto
  then show ?case
  proof (elim disjE)
    assume "e \<in> set evs'"
    then have "e \<in> set (fst (log_requests env sys on_step rs))" using lr by simp
    from Cons.IH [OF this] show ?thesis by auto
  qed (use r lt in auto)
qed

text \<open>
  Every event of a step is the criterion's call, a metric's call, an event of the logging
  calls, or the debug message; the calls are made on the prediction as reshaped and, for
  the metrics and the logging, post-processed.
\<close>

lemma System_step_event_cases:
  assumes "e \<in> set (fst (System_step env sys (input, target) mode))"
  shows "(\<exists>t'. cast_target env sys target = Inr t' \<and> mode \<noteq> ''test'' \<and>
            e = CriterionCall (squeeze_pred target (predict sys input mode)) t')
       \<or> (\<exists>n. e = MetricCall n (sigmoid_if_bce sys (squeeze_pred target (predict sys input mode))) target)
       \<or> (\<exists>ms loss. e \<in> set (fst (log_requests env sys (mode = ''train'')
              (metric_requests mode ms @ loss_requests mode loss
               @ key_requests sys mode input target
                   (sigmoid_if_bce sys (squeeze_pred target (predict sys input mode)))))))
       \<or> (\<exists>sm loss. e = DebugMessage mode input target
              (sigmoid_if_bce sys (squeeze_pred target (predict sys input mode))) sm loss)"
proof (cases "cast_target env sys target")
  case (Inl err)
  with assms show ?thesis by (simp add: System_step_def)
next
  case (Inr t')
  show ?thesis
  proof (cases "getattr_metrics sys mode")
    case (Inl err)
    with assms Inr show ?thesis
      by (auto simp: System_step_def Let_def split: if_splits option.splits)
  next
    case ms: (Inr ms)
    let ?raw = "squeeze_pred target (predict sys input mode)"
    let ?loss = "if mode = ''test'' then None
                 else (case criterion sys of None \<Rightarrow> None | Some c \<Rightarrow> Some (loss_fn c ?raw t'))"
    obtain evs res where lr: "log_requests env sys (mode = ''train'')
        (metric_requests mode ms @ loss_requests mode ?loss
         @ key_requests sys mode input target (sigmoid_if_bce sys ?raw)) = (evs, res)"
      by (cases "log_requests env sys (mode = ''train'')
        (metric_requests mode ms @ loss_requests mode ?loss
         @ key_requests sys mode input target (sigmoid_if_bce sys ?raw))")
    from assms Inr ms lr
    have "(mode \<noteq> ''test'' \<and> e = CriterionCall ?raw t')
        \<or> (\<exists>m\<in>set ms. e = MetricCall (metric_name m) (sigmoid_if_bce sys ?raw) target)
        \<or> e \<in> set evs
        \<or> (\<exists>sm loss. e = DebugMessage mode input target (sigmoid_if_bce sys ?raw) sm loss)"
      by (cases res; cases "criterion sys"; cases "mode = ''test''")
         (auto simp: System_step_def Let_def split: if_splits)
    then show ?thesis
    proof (elim disjE)
      assume "e \<in> set evs"
      then have "e \<in> set (fst (log_requests env sys (mode = ''train'')
        (metric_requests mode ms @ loss_requests mode ?loss
         @ key_requests sys mode input target (sigmoid_if_bce sys ?raw))))"
        using lr by simp
      then show ?thesis by blast
    qed (use Inr in blast)+
  qed
qed

lemma step_criterion_call:
  assumes "CriterionCall p t \<in> set (fst (System_step env sys (input, target) mode))"
  shows "p = squeeze_pred target (predict sys input mode) \<and> cast_target env sys target = Inr t
         \<and> mode \<noteq> ''test''"
  using System_step_event_cases [OF assms] by (auto dest!: log_requests_events)

lemma step_metric_call:
  assumes "MetricCall n p t \<in> set (fst (System_step env sys (input, target) mode))"
  shows "p = sigmoid_if_bce sys (squeeze_pred target (predict sys input mode)) \<and> t = target"
  using System_step_event_cases [OF assms] by (auto dest!: log_requests_events)





lemma step_example_train:
  "System_step plain_env (example_system c out) (input2, tgt) ''train'' =
     ([CriterionCall (squeeze_pred tgt out) tgt,
       MetricCall ''mean_error'' (sigmoid_if_bce (example_system c out) (squeeze_pred tgt out)) tgt,
       LogByTypeCall ''train/metric_mean_error'' (MetricObject ''mean_error'') (PyStr ''scalar'') True True,
       SelfLog ''train/metric_mean_error'' (MetricObject ''mean_error'') True True,
       LogByTypeCall ''train/loss'' (LossValue (loss_fn c (squeeze_pred tgt out) tgt)) (PyStr ''scalar'') True True,
       SelfLog ''train/loss'' (LossValue (loss_fn c (squeeze_pred tgt out) tgt)) True True],
      Inr (Some (loss_fn c (squeeze_pred tgt out) tgt)))"
  by (simp add: System_step_def example_system_def plain_env_def predict_def cast_target_def
      getattr_metrics_def metric_requests_def loss_requests_def key_requests_def
      getattr_log_as_def System_log_by_type_def mean_error_def Let_def)

subsection \<open>Reshaping the prediction\<close>

lemma squeeze_pred_cases:
  "squeeze_pred target pred =
     (if (\<exists>n. shape target = [n]) \<and> (\<exists>m. shape pred = [m, 1])
      then \<lparr>shape = [hd (shape pred)], elems = elems pred\<rparr> else pred)"
proof -
  have a: "length (shape target) = 1 \<longleftrightarrow> (\<exists>n. shape target = [n])"
    by (cases "shape target") auto
  have b: "length (shape pred) = 2 \<and> shape pred ! 1 = 1 \<longleftrightarrow> (\<exists>m. shape pred = [m, 1])"
  proof (cases "shape pred")
    case Nil
    then show ?thesis by simp
  next
    case (Cons m rest)
    then show ?thesis by (cases rest) auto
  qed
  show ?thesis
    unfolding squeeze_pred_def using a b by (auto simp: flatten_def)
qed

text \<open>
  \<^bold>\<open>C3\<close>, as the code has it. The prediction is flattened exactly when the target is
  one-dimensional and the prediction is two-dimensional with second dimension 1; the
  two first dimensions are not compared. So a target of shape \<open>(n,)\<close> and a prediction
  of shape \<open>(m, 1)\<close> give a prediction of shape \<open>(m,)\<close> with the same elements, for
  \<open>m = n\<close> as the specification has it and for \<open>m \<noteq> n\<close> as well, and every other
  pair of shapes leaves the prediction unchanged. The criterion is called on the prediction
  reshaped in this way, and the metrics on the same prediction after the sigmoid
  post-processing.
\<close>

theorem C3_squeeze:
  "(\<forall>n m. shape target = [n] \<and> shape pred = [m, 1] \<longrightarrow>
       squeeze_pred target pred = \<lparr>shape = [m], elems = elems pred\<rparr>) \<and>
   (\<not> (\<exists>n m. shape target = [n] \<and> shape pred = [m, 1]) \<longrightarrow> squeeze_pred target pred = pred) \<and>
   (\<forall>p t. CriterionCall p t \<in> set (fst (System_step env sys (input, target) mode)) \<longrightarrow>
       p = squeeze_pred target (predict sys input mode)) \<and>
   (\<forall>n p t. MetricCall n p t \<in> set (fst (System_step env sys (input, target) mode)) \<longrightarrow>
       p = sigmoid_if_bce sys (squeeze_pred target (predict sys input mode)))"
proof (intro conjI allI impI)
  fix n m assume "shape target = [n] \<and> shape pred = [m, 1]"
  then show "squeeze_pred target pred = \<lparr>shape = [m], elems = elems pred\<rparr>"
    by (simp add: squeeze_pred_cases)
next
  assume "\<not> (\<exists>n m. shape target = [n] \<and> shape pred = [m, 1])"
  then have "\<not> ((\<exists>n. shape target = [n]) \<and> (\<exists>m. shape pred = [m, 1]))" by blast
  then show "squeeze_pred target pred = pred"
    by (simp only: squeeze_pred_cases if_False)
next
  fix p t assume "CriterionCall p t \<in> set (fst (System_step env sys (input, target) mode))"
  from step_criterion_call [OF this]
  show "p = squeeze_pred target (predict sys input mode)" by simp
next
  fix n p t assume "MetricCall n p t \<in> set (fst (System_step env sys (input, target) mode))"
  from step_metric_call [OF this]
  show "p = sigmoid_if_bce sys (squeeze_pred target (predict sys input mode))" by simp
qed

text \<open>
  The specification's sentence fails as it stands: a target of shape (3,) and a
  prediction of shape (5, 1) are not of the shapes (B,) and (B, 1) for any B, and the
  prediction is flattened to shape (5,) all the same; the criterion is called on the
  flattened prediction.
\<close>

theorem C3_counterexample:
  "shape target3 = [3] \<and> shape pred51 = [5, 1] \<and>
   squeeze_pred target3 pred51 = \<lparr>shape = [5], elems = [1, 2, 3, 4, 5]\<rparr> \<and>
   squeeze_pred target3 pred51 \<noteq> pred51 \<and>
   hd (fst (System_step plain_env (example_system mse pred51) (input2, target3) ''train''))
     = CriterionCall \<lparr>shape = [5], elems = [1, 2, 3, 4, 5]\<rparr> target3"
proof -
  have sq: "squeeze_pred target3 pred51 = \<lparr>shape = [5], elems = [1, 2, 3, 4, 5]\<rparr>"
    by (simp add: squeeze_pred_def flatten_def target3_def pred51_def)
  moreover have "shape target3 = [3]" "shape pred51 = [5, 1]"
    by (simp_all add: target3_def pred51_def)
  moreover have "\<lparr>shape = [5], elems = [1, 2, 3, 4, 5]\<rparr> \<noteq> pred51"
    by (simp add: pred51_def)
  ultimately show ?thesis by (simp add: step_example_train)
qed

text \<open>
  Shapes (2,) and (2, 1) flatten; shapes (2,) and (2, 3) do not, nor does a
  two-dimensional target; the criterion sees the flattened prediction.
\<close>

theorem C3_squeeze_witness:
  "squeeze_pred target2 pred21 = \<lparr>shape = [2], elems = [0, 0]\<rparr> \<and>
   squeeze_pred target2 pred23 = pred23 \<and>
   squeeze_pred pred23 pred21 = pred21 \<and>
   CriterionCall \<lparr>shape = [2], elems = [0, 0]\<rparr> target2
     \<in> set (fst (System_step plain_env (example_system mse pred21) (input2, target2) ''train''))"
proof -
  have "\<not> (\<exists>n m. shape target2 = [n] \<and> shape pred23 = [m, 1])"
       "\<not> (\<exists>n m. shape pred23 = [n] \<and> shape pred21 = [m, 1])"
    by (simp_all add: pred23_def target2_def)
  moreover have "shape target2 = [2] \<and> shape pred21 = [2, 1]" "elems pred21 = [0, 0]"
    by (simp_all add: target2_def pred21_def)
  moreover have "hd (fst (System_step plain_env (example_system mse pred21) (input2, target2) ''train''))
      \<in> set (fst (System_step plain_env (example_system mse pred21) (input2, target2) ''train''))"
    by (simp add: step_example_train)
  moreover have "hd (fst (System_step plain_env (example_system mse pred21) (input2, target2) ''train''))
      = CriterionCall (squeeze_pred target2 pred21) target2"
    by (simp add: step_example_train)
  ultimately show ?thesis
    using C3_squeeze [of target2 pred21 plain_env "example_system mse pred21" input2 "''train''"]
      C3_squeeze [of target2 pred23 plain_env "example_system mse pred21" input2 "''train''"]
      C3_squeeze [of pred23 pred21 plain_env "example_system mse pred21" input2 "''train''"]
    by metis
qed

subsection \<open>Sigmoid post-processing\<close>






subsection \<open>Logging the input, the target and the prediction\<close>

lemma log_requests_scalars:
  "\<forall>r\<in>set rs. snd (snd r) = PyStr ''scalar'' \<Longrightarrow>
     snd (log_requests env sys on_step (rs @ rest)) = snd (log_requests env sys on_step rest)"
proof (induction rs)
  case Nil
  then show ?case by simp
next
  case (Cons r rs)
  obtain name data dt where r: "r = (name, data, dt)" by (cases r)
  with Cons.prems have dt: "dt = PyStr ''scalar''" by simp
  from Cons have "snd (log_requests env sys on_step (rs @ rest))
      = snd (log_requests env sys on_step rest)" by simp
  then show ?case
    using r dt
    by (cases "log_requests env sys on_step (rs @ rest)") (simp add: System_log_by_type_def)
qed

lemma log_requests_bool:
  "snd (log_requests env sys on_step ((name, data, PyBool b) # rest)) = Some SystemExit"
  by (simp add: System_log_by_type_def)

lemma key_requests_selected:
  assumes "log_input_as sys \<noteq> None \<or> log_target_as sys \<noteq> None \<or> log_pred_as sys \<noteq> None"
  shows "\<exists>name data rest. key_requests sys mode input target pred = (name, data, PyBool True) # rest"
  using assms by (auto simp: key_requests_def getattr_log_as_def Let_def)

lemma step_request_types:
  assumes "r \<in> set (metric_requests mode ms @ loss_requests mode loss
                     @ key_requests sys mode input target pred)"
  shows "(snd (snd r) = PyStr ''scalar'' \<and> (\<forall>t. fst (snd r) \<noteq> TensorData t))
         \<or> snd (snd r) = PyBool True"
  using assms
  by (auto simp: metric_requests_def loss_requests_def key_requests_def Let_def
      split: option.splits if_splits)

lemma step_never_logs_tensor:
  assumes "e \<in> set (fst (System_step env sys (input, target) mode))"
  shows "(\<forall>n t a b. e \<noteq> SelfLog n (TensorData t) a b) \<and> (\<forall>n d. e \<noteq> WandbLog n d)"
proof -
  from System_step_event_cases [OF assms]
  consider (call) "(\<exists>p t. e = CriterionCall p t) \<or> (\<exists>n p t. e = MetricCall n p t)
                   \<or> (\<exists>m i t p sm l. e = DebugMessage m i t p sm l)"
    | (logs) ms loss pred where "e \<in> set (fst (log_requests env sys (mode = ''train'')
              (metric_requests mode ms @ loss_requests mode loss
               @ key_requests sys mode input target pred)))"
    by blast
  then show ?thesis
  proof cases
    case call
    then show ?thesis by auto
  next
    case logs
    from log_requests_effects [OF logs] obtain r where
      r: "r \<in> set (metric_requests mode ms @ loss_requests mode loss
               @ key_requests sys mode input target pred)"
      and e: "e = LogByTypeCall (fst r) (fst (snd r)) (snd (snd r)) (mode = ''train'') True
        \<or> e \<in> set (fst (System_log_by_type env sys (fst r) (fst (snd r)) (snd (snd r))
                            (mode = ''train'') True))"
      by blast
    from step_request_types [OF r] show ?thesis
    proof
      assume sc: "snd (snd r) = PyStr ''scalar'' \<and> (\<forall>t. fst (snd r) \<noteq> TensorData t)"
      with e have "e = LogByTypeCall (fst r) (fst (snd r)) (snd (snd r)) (mode = ''train'') True
          \<or> e = SelfLog (fst r) (fst (snd r)) (mode = ''train'') True"
        by (auto simp: System_log_by_type_def)
      with sc show ?thesis by auto
    next
      assume "snd (snd r) = PyBool True"
      with e show ?thesis by (auto simp: System_log_by_type_def)
    qed
  qed
qed

text \<open>
  \<^bold>\<open>C2\<close>, as the code has it. Whenever one of the selectors \<^verbatim>\<open>log_input_as\<close>,
  \<^verbatim>\<open>log_target_as\<close>, \<^verbatim>\<open>log_pred_as\<close> is configured, with a supported type or not, a
  step that gets as far as the logging loop ends in \<^verbatim>\<open>sys.exit()\<close>: the loop hands
  \<^verbatim>\<open>_log_by_type\<close> the boolean \<^verbatim>\<open>True\<close> as the data type. No step under any
  configuration logs a tensor through \<^verbatim>\<open>self.log\<close> or as an image.
\<close>

theorem C2_selector_exits:
  assumes sel: "log_input_as sys \<noteq> None \<or> log_target_as sys \<noteq> None \<or> log_pred_as sys \<noteq> None"
    and cast: "cast_target env sys target = Inr t'"
    and crit: "mode = ''test'' \<or> criterion sys \<noteq> None"
    and mets: "getattr_metrics sys mode = Inr ms"
  shows "snd (System_step env sys (input, target) mode) = Inl SystemExit \<and>
         (\<forall>n t a b. SelfLog n (TensorData t) a b
                      \<notin> set (fst (System_step env sys (input, target) mode))) \<and>
         (\<forall>n d. WandbLog n d \<notin> set (fst (System_step env sys (input, target) mode)))"
proof -
  have exit: "snd (log_requests env sys on_step
                (metric_requests mode ms @ loss_requests mode loss
                 @ key_requests sys mode input target pred)) = Some SystemExit"
    for on_step loss pred
  proof -
    have "\<forall>r\<in>set (metric_requests mode ms @ loss_requests mode loss).
            snd (snd r) = PyStr ''scalar''"
      by (auto simp: metric_requests_def loss_requests_def split: option.splits)
    from log_requests_scalars [OF this, of env sys on_step
        "key_requests sys mode input target pred"]
    have "snd (log_requests env sys on_step
                (metric_requests mode ms @ loss_requests mode loss
                 @ key_requests sys mode input target pred))
          = snd (log_requests env sys on_step (key_requests sys mode input target pred))"
      by (simp only: append_assoc)
    also from key_requests_selected [OF sel] obtain name data rest where
      k: "key_requests sys mode input target pred = (name, data, PyBool True) # rest" by blast
    have "snd (log_requests env sys on_step (key_requests sys mode input target pred))
            = Some SystemExit"
      by (simp only: k log_requests_bool)
    finally show ?thesis .
  qed
  have lr: "\<exists>evs. log_requests env sys on_step
                (metric_requests mode ms @ loss_requests mode loss
                 @ key_requests sys mode input target pred) = (evs, Some SystemExit)"
    for on_step loss pred
    using exit [of on_step loss pred]
    by (cases "log_requests env sys on_step
                (metric_requests mode ms @ loss_requests mode loss
                 @ key_requests sys mode input target pred)") simp
  have "snd (System_step env sys (input, target) mode) = Inl SystemExit"
  proof (cases "mode = ''test''")
    case True
    from lr [of False None "sigmoid_if_bce sys (squeeze_pred target (predict sys input mode))"]
    obtain evs where "log_requests env sys False
                (metric_requests mode ms @ loss_requests mode None
                 @ key_requests sys mode input target
                     (sigmoid_if_bce sys (squeeze_pred target (predict sys input mode))))
              = (evs, Some SystemExit)" by blast
    with True cast mets show ?thesis
      by (simp add: System_step_def Let_def)
  next
    case False
    with crit obtain c where c: "criterion sys = Some c" by auto
    from lr [of "mode = ''train''"
        "Some (loss_fn c (squeeze_pred target (predict sys input mode)) t')"
        "sigmoid_if_bce sys (squeeze_pred target (predict sys input mode))"]
    obtain evs where "log_requests env sys (mode = ''train'')
                (metric_requests mode ms
                 @ loss_requests mode (Some (loss_fn c (squeeze_pred target (predict sys input mode)) t'))
                 @ key_requests sys mode input target
                     (sigmoid_if_bce sys (squeeze_pred target (predict sys input mode))))
              = (evs, Some SystemExit)" by blast
    with False c cast mets show ?thesis
      by (simp add: System_step_def Let_def)
  qed
  moreover have "\<forall>n t a b. SelfLog n (TensorData t) a b
                      \<notin> set (fst (System_step env sys (input, target) mode))"
    using step_never_logs_tensor by blast
  moreover have "\<forall>n d. WandbLog n d \<notin> set (fst (System_step env sys (input, target) mode))"
    using step_never_logs_tensor by blast
  ultimately show ?thesis by blast
qed

text \<open>
  A training step of a system configured with \<^verbatim>\<open>log_pred_as="scalar"\<close>: the metric and
  the loss are logged, then \<^verbatim>\<open>_log_by_type\<close> is called with \<^verbatim>\<open>True\<close>, logs the error
  and exits.
\<close>

theorem C2_selector_exits_witness:
  "log_pred_as (logging_system mse pred21) = Some ''scalar'' \<and>
   System_step plain_env (logging_system mse pred21) (input2, target2) ''train'' =
     ([CriterionCall \<lparr>shape = [2], elems = [0, 0]\<rparr> target2,
       MetricCall ''mean_error'' \<lparr>shape = [2], elems = [0, 0]\<rparr> target2,
       LogByTypeCall ''train/metric_mean_error'' (MetricObject ''mean_error'') (PyStr ''scalar'') True True,
       SelfLog ''train/metric_mean_error'' (MetricObject ''mean_error'') True True,
       LogByTypeCall ''train/loss''
         (LossValue (loss_fn mse \<lparr>shape = [2], elems = [0, 0]\<rparr> target2)) (PyStr ''scalar'') True True,
       SelfLog ''train/loss'' (LossValue (loss_fn mse \<lparr>shape = [2], elems = [0, 0]\<rparr> target2)) True True,
       LogByTypeCall ''train/pred'' (TensorData \<lparr>shape = [2], elems = [0, 0]\<rparr>) (PyBool True) True True,
       LoggerError (''type '' @ [CHR 0x27] @ ''True'' @ [CHR 0x27] @ '' not supported. Exiting.'')],
      Inl SystemExit)"
proof -
  have sel: "log_input_as (logging_system mse pred21) \<noteq> None
      \<or> log_target_as (logging_system mse pred21) \<noteq> None
      \<or> log_pred_as (logging_system mse pred21) \<noteq> None"
    by (simp add: logging_system_def)
  have cast: "cast_target plain_env (logging_system mse pred21) target2 = Inr target2"
    by (simp add: cast_target_def logging_system_def example_system_def)
  have crit: "''train'' = ''test'' \<or> criterion (logging_system mse pred21) \<noteq> None"
    by (simp add: logging_system_def example_system_def)
  have mets: "getattr_metrics (logging_system mse pred21) ''train'' = Inr [mean_error]"
    by (simp add: getattr_metrics_def logging_system_def example_system_def)
  from C2_selector_exits [OF sel cast crit mets, of input2]
  have "snd (System_step plain_env (logging_system mse pred21) (input2, target2) ''train'')
          = Inl SystemExit" by blast
  moreover have "fst (System_step plain_env (logging_system mse pred21) (input2, target2) ''train'')
     = [CriterionCall \<lparr>shape = [2], elems = [0, 0]\<rparr> target2,
       MetricCall ''mean_error'' \<lparr>shape = [2], elems = [0, 0]\<rparr> target2,
       LogByTypeCall ''train/metric_mean_error'' (MetricObject ''mean_error'') (PyStr ''scalar'') True True,
       SelfLog ''train/metric_mean_error'' (MetricObject ''mean_error'') True True,
       LogByTypeCall ''train/loss''
         (LossValue (loss_fn mse \<lparr>shape = [2], elems = [0, 0]\<rparr> target2)) (PyStr ''scalar'') True True,
       SelfLog ''train/loss'' (LossValue (loss_fn mse \<lparr>shape = [2], elems = [0, 0]\<rparr> target2)) True True,
       LogByTypeCall ''train/pred'' (TensorData \<lparr>shape = [2], elems = [0, 0]\<rparr>) (PyBool True) True True,
       LoggerError (''type '' @ [CHR 0x27] @ ''True'' @ [CHR 0x27] @ '' not supported. Exiting.'')]"
    by (simp add: System_step_def logging_system_def example_system_def plain_env_def predict_def
      cast_target_def getattr_metrics_def metric_requests_def loss_requests_def key_requests_def
      getattr_log_as_def System_log_by_type_def mean_error_def Let_def eval_key_def
      sigmoid_if_bce_def mse_def squeeze_pred_def flatten_def target2_def pred21_def py_str_def)
  moreover have "log_pred_as (logging_system mse pred21) = Some ''scalar''"
    by (simp add: logging_system_def)
  ultimately show ?thesis by (simp add: prod_eq_iff)
qed

subsection \<open>Stage setup\<close>

text \<open>
  \<^bold>\<open>C9.\<close> \<^verbatim>\<open>System.setup\<close> knows the stages \<^verbatim>\<open>fit\<close>, \<^verbatim>\<open>validate\<close> and
  \<^verbatim>\<open>test\<close> only: for any other stage it raises \<^verbatim>\<open>KeyError\<close> with nothing logged and
  the system unchanged (no dataset check, no method bound), and for these three it never
  raises \<^verbatim>\<open>KeyError\<close>.
\<close>

theorem C9_setup_unknown_stage:
  "(stage \<notin> {''fit'', ''validate'', ''test''} \<longrightarrow> System_setup sys stage = ([], Some KeyError, sys)) \<and>
   (stage \<in> {''fit'', ''validate'', ''test''} \<longrightarrow> fst (snd (System_setup sys stage)) \<noteq> Some KeyError)"
  by (auto simp: System_setup_def dataset_required_by_stage_def Let_def)

text \<open>
  Stages \<^verbatim>\<open>predict\<close> and \<^verbatim>\<open>tune\<close> raise \<^verbatim>\<open>KeyError\<close> and leave the system as it
  was; \<^verbatim>\<open>fit\<close> with a training dataset succeeds; \<^verbatim>\<open>validate\<close> without a
  validation dataset exits.
\<close>

theorem C9_setup_unknown_stage_witness:
  "System_setup (example_system mse pred21) ''predict''
     = ([], Some KeyError, example_system mse pred21) \<and>
   System_setup (example_system mse pred21) ''tune''
     = ([], Some KeyError, example_system mse pred21) \<and>
   fst (snd (System_setup (example_system mse pred21) ''fit'')) = None \<and>
   fst (snd (System_setup (example_system mse pred21) ''validate'')) = Some SystemExit"
proof -
  have "fst (snd (System_setup (example_system mse pred21) ''fit'')) = None"
       "fst (snd (System_setup (example_system mse pred21) ''validate'')) = Some SystemExit"
    by (simp_all add: System_setup_def dataset_required_by_stage_def getattr_dataset_def
        example_system_def Let_def)
  then show ?thesis
    using C9_setup_unknown_stage [of "''predict''" "example_system mse pred21"]
      C9_setup_unknown_stage [of "''tune''" "example_system mse pred21"]
    by simp
qed

end
